theory Spec2Isabelle
  imports Main "HOL-Library.Word" "HOL-Library.Sublist"
begin

unbundle bit_operations_syntax

section \<open>Errors and the halting error handler (testdb.go)\<close>

text \<open>
  Go errors as values. \<open>ErrNoRows\<close> is the sentinel \<^verbatim>\<open>pgx.ErrNoRows\<close>, \<open>Errorf\<close> an
  error made by \<^verbatim>\<open>fmt.Errorf\<close> or by the driver, \<open>Wrapped\<close> an error that wraps another
  one. \<open>errors_Is_ErrNoRows\<close> is \<^verbatim>\<open>errors.Is(err, pgx.ErrNoRows)\<close>.
\<close>

datatype error = ErrNoRows | Errorf string | Wrapped string error

fun errors_Is_ErrNoRows :: "error \<Rightarrow> bool" where
  "errors_Is_ErrNoRows ErrNoRows = True"
| "errors_Is_ErrNoRows (Errorf msg) = False"
| "errors_Is_ErrNoRows (Wrapped msg e) = errors_Is_ErrNoRows e"

text \<open>Values of Go's \<^verbatim>\<open>any\<close> as far as the error handler receives them.\<close>

datatype any = AnyString string | AnySlice "any list"

text \<open>
  \<^verbatim>\<open>ErrorHandler(t, err, extra...)\<close> is expected to halt the test at once (its default is
  \<^verbatim>\<open>t.Fatal\<close>). A call that reaches it is the value \<open>Inl (Fatal err extra)\<close>: the function
  does not return to its caller. A nil dereference is a panic of the runtime.
  \<open>BlocksForever\<close> is a call that waits and never returns, as \<open>Lock\<close> does while another
  connection holds the lock.
\<close>

datatype failure = Fatal error "any list" | NilPointerDereference | BlocksForever

text \<open>
  \<^verbatim>\<open>must(t, err, extra...)\<close> hands its variadic \<open>extra\<close> to the handler as one slice
  (\<^verbatim>\<open>ErrorHandler(t, err, extra)\<close>, not \<^verbatim>\<open>extra...\<close>).
\<close>

fun must :: "error option \<Rightarrow> any list \<Rightarrow> failure + unit" where
  "must None extra = Inr ()"
| "must (Some err) extra = Inl (Fatal err [AnySlice extra])"

section \<open>The Postgres backend (pg.go)\<close>

subsection \<open>The driver\<close>

text \<open>
  The pgx driver and the server behind it are the environment: a world \<open>'w\<close> and the
  driver's functions on it. \<open>Exec\<close> returns the error of \<^verbatim>\<open>conn.Exec\<close> (\<open>None\<close> is nil),
  \<open>QueryRow_bool\<close> and \<open>QueryRow\<close> return what \<^verbatim>\<open>conn.QueryRow(...).Scan\<close> gives: an error
  or the scanned value. \<open>ParseConfig\<close> returns the \<^verbatim>\<open>Database\<close> of the parsed configuration.
  \<open>Expand template match\<close> is what the regexp library substitutes for a match when the
  replacement template contains a \<open>$\<close> reference; a template without \<open>$\<close> is taken literally
  and never reaches it.
\<close>

type_synonym conn = nat

datatype arg = ArgUint32 "32 word" | ArgAny string

record ('w, 'v) driver =
  pgx_Connect :: "string \<Rightarrow> 'w \<Rightarrow> (error + conn) \<times> 'w"
  Exec :: "conn \<Rightarrow> string \<Rightarrow> arg list \<Rightarrow> 'w \<Rightarrow> error option \<times> 'w"
  QueryRow_bool :: "conn \<Rightarrow> string \<Rightarrow> arg list \<Rightarrow> 'w \<Rightarrow> (error + bool) \<times> 'w"
  QueryRow :: "conn \<Rightarrow> string \<Rightarrow> arg list \<Rightarrow> 'w \<Rightarrow> (error + 'v) \<times> 'w"
  Close :: "conn \<Rightarrow> 'w \<Rightarrow> 'w"
  ParseConfig :: "string \<Rightarrow> error + string"
  Expand :: "string \<Rightarrow> string \<Rightarrow> string"

text \<open>\<^verbatim>\<open>_, err := conn.Exec(ctx, sql, args...); must(t, err)\<close>\<close>

definition exec_must ::
  "('w, 'v) driver \<Rightarrow> conn \<Rightarrow> string \<Rightarrow> arg list \<Rightarrow> 'w \<Rightarrow> (failure + unit) \<times> 'w" where
  "exec_must d c sql args w = (case Exec d c sql args w of (err, w') \<Rightarrow> (must err [], w'))"

subsection \<open>crc32.ChecksumIEEE\<close>

text \<open>The reflected CRC-32 (polynomial \<open>0xEDB88320\<close>) of the bytes of a string.\<close>

definition crc_bit :: "32 word \<Rightarrow> 32 word" where
  "crc_bit c = (if bit c 0 then drop_bit 1 c XOR 0xEDB88320 else drop_bit 1 c)"

definition crc_byte :: "32 word \<Rightarrow> char \<Rightarrow> 32 word" where
  "crc_byte c b = (crc_bit ^^ 8) (c XOR of_nat (of_char b))"

definition ChecksumIEEE :: "string \<Rightarrow> 32 word" where
  "ChecksumIEEE s = NOT (foldl crc_byte (- 1) s)"

subsection \<open>verifyPgDbName\<close>

text \<open>
  \<^verbatim>\<open>var pgDbNameRegex = regexp.MustCompile("^[a-zA-z0-9_]+$")\<close>. The class has the three
  ranges \<open>a-z\<close>, \<open>A-z\<close> and \<open>0-9\<close> and the underscore; a range holds the characters whose
  code lies between its ends. Go's \<open>$\<close> without the multi-line flag matches at the end of the text only. A
  byte above 127 belongs to a rune outside every range, so a text matches when it is not
  empty and each of its bytes is in the class.
\<close>

definition in_range :: "char \<Rightarrow> char \<Rightarrow> char \<Rightarrow> bool" where
  "in_range lo hi c = ((of_char lo :: nat) \<le> of_char c \<and> (of_char c :: nat) \<le> of_char hi)"

definition pgDbNameClass :: "char \<Rightarrow> bool" where
  "pgDbNameClass c =
     (in_range CHR ''a'' CHR ''z'' c \<or> in_range CHR ''A'' CHR ''z'' c \<or>
      in_range CHR ''0'' CHR ''9'' c \<or> c = CHR ''_'')"

definition pgDbNameRegex_MatchString :: "string \<Rightarrow> bool" where
  "pgDbNameRegex_MatchString s = (s \<noteq> [] \<and> list_all pgDbNameClass s)"

definition verifyPgDbName :: "string \<Rightarrow> failure + string" where
  "verifyPgDbName name' =
     (if \<not> pgDbNameRegex_MatchString name'
      then Inl (Fatal (Errorf (name' @ '' as a DB name may be unsafe. letters, numbers and _ only'')) [])
      else Inr name')"

subsection \<open>The handle PgDb\<close>

text \<open>
  \<^verbatim>\<open>conns map[string]*pgx.Conn\<close> is an association list, the nil map the empty list; the
  order of the list stands for the order in which Go ranges over the map.
\<close>

record PgDb =
  name :: string
  dsn :: string
  rootDsn :: string
  conns :: "(string \<times> conn) list"

definition Name :: "PgDb \<Rightarrow> string" where
  "Name p = dsn p"

definition Dsn :: "PgDb \<Rightarrow> string" where
  "Dsn p = dsn p"

text \<open>
  \<^verbatim>\<open>PgDb.connect\<close>: the cached connection for the target if there is one, else a new
  connection, stored under the target. It returns the handle as it has become.
\<close>

definition connect ::
  "('w, 'v) driver \<Rightarrow> PgDb \<Rightarrow> string \<Rightarrow> 'w \<Rightarrow> (failure + conn) \<times> PgDb \<times> 'w" where
  "connect d p dsn' w =
     (case map_of (conns p) dsn' of
        Some existing \<Rightarrow> (Inr existing, p, w)
      | None \<Rightarrow>
          (case pgx_Connect d dsn' w of
             (Inl err, w') \<Rightarrow> (Inl (Fatal err [AnySlice []]), p, w')
           | (Inr c, w') \<Rightarrow> (Inr c, p\<lparr>conns := (dsn', c) # conns p\<rparr>, w')))"

text \<open>
  \<^verbatim>\<open>PgDb.QueryValue\<close>: the scan of the single row into \<open>into\<close>; the result is the
  scanned value.
\<close>

definition QueryValue ::
  "('w, 'v) driver \<Rightarrow> PgDb \<Rightarrow> string \<Rightarrow> arg list \<Rightarrow> 'w \<Rightarrow> (failure + 'v) \<times> PgDb \<times> 'w" where
  "QueryValue d p sql args w =
     (case connect d p (dsn p) w of
        (Inl f, p', w') \<Rightarrow> (Inl f, p', w')
      | (Inr c, p', w') \<Rightarrow>
          (case QueryRow d c sql args w' of
             (Inl err, w'') \<Rightarrow>
               (if errors_Is_ErrNoRows err
                then (Inl (Fatal err [AnySlice [AnyString
                        ''test database query for a single value returned 0 rows'']]), p', w'')
                else (Inl (Fatal err [AnySlice []]), p', w''))
           | (Inr v, w'') \<Rightarrow> (Inr v, p', w'')))"

text \<open>
  \<^verbatim>\<open>PgDb.QueryRow\<close> returns a closure over the row; \<open>QueryRow_into\<close> is the closure, applied
  to the row the driver gave.
\<close>

definition QueryRow_into :: "error + 'v \<Rightarrow> failure + 'v" where
  "QueryRow_into row =
     (case row of
        Inl err \<Rightarrow>
          (if errors_Is_ErrNoRows err
           then Inl (Fatal err [AnySlice [AnyString
                  ''test database query for a single row returned 0 rows'']])
           else Inl (Fatal err [AnySlice []]))
      | Inr v \<Rightarrow> Inr v)"

definition PgDb_QueryRow ::
  "('w, 'v) driver \<Rightarrow> PgDb \<Rightarrow> string \<Rightarrow> arg list \<Rightarrow> 'w \<Rightarrow>
     (failure + (error + 'v)) \<times> PgDb \<times> 'w" where
  "PgDb_QueryRow d p sql args w =
     (case connect d p (dsn p) w of
        (Inl f, p', w') \<Rightarrow> (Inl f, p', w')
      | (Inr c, p', w') \<Rightarrow>
          (case QueryRow d c sql args w' of (row, w'') \<Rightarrow> (Inr row, p', w'')))"

subsection \<open>The statements of the backend\<close>

definition dq :: char where "dq = CHR 0x22"
definition sq :: char where "sq = CHR 0x27"
definition nl :: char where "nl = CHR 0x0A"
definition bq :: char where "bq = CHR 0x60"

definition lockSql :: string where
  "lockSql = ''SELECT pg_advisory_lock($1)''"

definition unlockSql :: string where
  "unlockSql = ''SELECT pg_advisory_unlock($1)''"

definition existsSql :: string where
  "existsSql = ''SELECT true FROM pg_database WHERE datname = $1''"

definition createSql :: "string \<Rightarrow> string" where
  "createSql n = ''CREATE DATABASE '' @ [dq] @ n @ [dq]"

definition createFromTemplateSql :: "string \<Rightarrow> string \<Rightarrow> string" where
  "createFromTemplateSql n tmpl =
     ''CREATE DATABASE '' @ [dq] @ n @ [dq] @ '' TEMPLATE '' @ [dq] @ tmpl @ [dq]"

definition removeSql :: "string \<Rightarrow> string" where
  "removeSql n = ''DROP DATABASE IF EXISTS '' @ n"

definition closeConns :: "string \<Rightarrow> string" where
  "closeConns n =
     [nl] @ ''SELECT pg_terminate_backend(pg_stat_activity.pid)'' @
     [nl] @ ''FROM pg_stat_activity'' @
     [nl] @ ''WHERE pg_stat_activity.datname = '' @ [sq] @ n @ [sq]"

definition dropSql :: "string \<Rightarrow> string" where
  "dropSql n = ''DROP DATABASE IF EXISTS '' @ [dq] @ n @ [dq]"

subsection \<open>PgDb.Drop\<close>

text \<open>
  \<^verbatim>\<open>Drop\<close> closes the handle's own connections, connects to the root target, terminates
  the sessions of the database, drops it and forgets the connections. The deferred
  \<^verbatim>\<open>root.Close\<close> runs on every exit after the connection was made.
\<close>

definition Drop ::
  "('w, 'v) driver \<Rightarrow> PgDb \<Rightarrow> 'w \<Rightarrow> (failure + unit) \<times> PgDb \<times> 'w" where
  "Drop d p w =
     (let w1 = fold (\<lambda>(k, c). Close d c) (conns p) w in
      case connect d p (rootDsn p) w1 of
        (Inl f, p1, w2) \<Rightarrow> (Inl f, p1, w2)
      | (Inr root, p1, w2) \<Rightarrow>
          (case verifyPgDbName (name p1) of
             Inl f \<Rightarrow> (Inl f, p1, Close d root w2)
           | Inr n1 \<Rightarrow>
               (case exec_must d root (closeConns n1) [] w2 of
                  (Inl f, w3) \<Rightarrow> (Inl f, p1, Close d root w3)
                | (Inr u, w3) \<Rightarrow>
                    (case verifyPgDbName (name p1) of
                       Inl f \<Rightarrow> (Inl f, p1, Close d root w3)
                     | Inr n2 \<Rightarrow>
                         (case exec_must d root (dropSql n2) [] w3 of
                            (Inl f, w4) \<Rightarrow> (Inl f, p1, Close d root w4)
                          | (Inr u', w4) \<Rightarrow>
                              (Inr (), p1\<lparr>conns := []\<rparr>, Close d root w4))))))"

subsection \<open>pgInitializer\<close>

definition pgInitializer_Connect ::
  "('w, 'v) driver \<Rightarrow> string \<Rightarrow> 'w \<Rightarrow> (failure + conn) \<times> 'w" where
  "pgInitializer_Connect d dsn' w =
     (case pgx_Connect d dsn' w of
        (Inl err, w') \<Rightarrow> (Inl (Fatal err [AnySlice []]), w')
      | (Inr c, w') \<Rightarrow> (Inr c, w'))"

definition pgInitializer_Lock ::
  "('w, 'v) driver \<Rightarrow> conn \<Rightarrow> string \<Rightarrow> 'w \<Rightarrow> (failure + unit) \<times> 'w" where
  "pgInitializer_Lock d c name' w = exec_must d c lockSql [ArgUint32 (ChecksumIEEE name')] w"

definition pgInitializer_Unlock ::
  "('w, 'v) driver \<Rightarrow> conn \<Rightarrow> string \<Rightarrow> 'w \<Rightarrow> (failure + unit) \<times> 'w" where
  "pgInitializer_Unlock d c name' w = exec_must d c unlockSql [ArgUint32 (ChecksumIEEE name')] w"

definition pgInitializer_Exists ::
  "('w, 'v) driver \<Rightarrow> conn \<Rightarrow> string \<Rightarrow> 'w \<Rightarrow> (failure + bool) \<times> 'w" where
  "pgInitializer_Exists d c name' w =
     (case QueryRow_bool d c existsSql [ArgAny name'] w of
        (Inl err, w') \<Rightarrow>
          (if errors_Is_ErrNoRows err then (Inr False, w')
           else (Inl (Fatal err [AnySlice []]), w'))
      | (Inr exists, w') \<Rightarrow> (Inr exists, w'))"

definition pgInitializer_Create ::
  "('w, 'v) driver \<Rightarrow> conn \<Rightarrow> string \<Rightarrow> 'w \<Rightarrow> (failure + unit) \<times> 'w" where
  "pgInitializer_Create d c name' w =
     (case verifyPgDbName name' of
        Inl f \<Rightarrow> (Inl f, w)
      | Inr n \<Rightarrow> exec_must d c (createSql n) [] w)"

definition pgInitializer_CreateFromTemplate ::
  "('w, 'v) driver \<Rightarrow> conn \<Rightarrow> string \<Rightarrow> string \<Rightarrow> 'w \<Rightarrow> (failure + unit) \<times> 'w" where
  "pgInitializer_CreateFromTemplate d c template name' w =
     (case verifyPgDbName name' of
        Inl f \<Rightarrow> (Inl f, w)
      | Inr n \<Rightarrow>
          (case verifyPgDbName template of
             Inl f \<Rightarrow> (Inl f, w)
           | Inr tmpl \<Rightarrow> exec_must d c (createFromTemplateSql n tmpl) [] w))"

definition pgInitializer_Remove ::
  "('w, 'v) driver \<Rightarrow> conn \<Rightarrow> string \<Rightarrow> 'w \<Rightarrow> (failure + unit) \<times> 'w" where
  "pgInitializer_Remove d c name' w =
     (case verifyPgDbName name' of
        Inl f \<Rightarrow> (Inl f, w)
      | Inr n \<Rightarrow> exec_must d c (removeSql n) [] w)"

definition pgInitializer_NewDb ::
  "('w, 'v) driver \<Rightarrow> string \<Rightarrow> string \<Rightarrow> failure + PgDb" where
  "pgInitializer_NewDb d rootDsn' dsn' =
     (case ParseConfig d dsn' of
        Inl err \<Rightarrow> Inl (Fatal err [AnySlice []])
      | Inr database \<Rightarrow> Inr \<lparr>name = database, dsn = dsn', rootDsn = rootDsn', conns = []\<rparr>)"

subsection \<open>pgInitializer.NewDsn\<close>

text \<open>
  \<^verbatim>\<open>r := regexp.MustCompile("/\\w+\\?")\<close>: a slash, one or more word characters
  (\<open>[0-9A-Za-z_]\<close>) and a question mark. The repetition is greedy, and a match that
  starts at a slash exists exactly when the longest run of word characters after it is
  not empty and a question mark follows the run. \<open>match_here\<close> gives the matched text
  and the rest of the input behind it.
\<close>

definition is_word :: "char \<Rightarrow> bool" where
  "is_word c =
     (in_range CHR ''0'' CHR ''9'' c \<or> in_range CHR ''A'' CHR ''Z'' c \<or>
      in_range CHR ''a'' CHR ''z'' c \<or> c = CHR ''_'')"

fun match_here :: "string \<Rightarrow> (string \<times> string) option" where
  "match_here [] = None"
| "match_here (c # cs) =
     (if c = CHR ''/'' \<and> takeWhile is_word cs \<noteq> []
      then (case dropWhile is_word cs of
              [] \<Rightarrow> None
            | q # rest \<Rightarrow>
                (if q = CHR ''?'' then Some (c # takeWhile is_word cs @ [q], rest) else None))
      else None)"

fun MatchString :: "string \<Rightarrow> bool" where
  "MatchString [] = False"
| "MatchString (c # cs) = (match_here (c # cs) \<noteq> None \<or> MatchString cs)"

lemma match_here_shorter:
  assumes "match_here s = Some (m, rest)"
  shows "length rest < length s"
proof (cases s)
  case Nil
  with assms show ?thesis by simp
next
  case (Cons c cs)
  with assms obtain q where "dropWhile is_word cs = q # rest"
    by (auto split: if_splits list.splits)
  then have "length rest < length (dropWhile is_word cs)" by simp
  also have "\<dots> \<le> length cs" by (rule length_dropWhile_le)
  finally show ?thesis using Cons by simp
qed

text \<open>
  \<^verbatim>\<open>r.ReplaceAllString(src, repl)\<close>: the matches are found from left to right, each
  search starting behind the match before; every match is replaced by the expanded
  template, every other character is copied.
\<close>

definition replacement :: "('w, 'v) driver \<Rightarrow> string \<Rightarrow> string \<Rightarrow> string" where
  "replacement d repl m = (if CHR ''$'' \<in> set repl then Expand d repl m else repl)"

function ReplaceAllString :: "('w, 'v) driver \<Rightarrow> string \<Rightarrow> string \<Rightarrow> string" where
  "ReplaceAllString d [] repl = []"
| "ReplaceAllString d (c # cs) repl =
     (case match_here (c # cs) of
        Some (m, rest) \<Rightarrow> replacement d repl m @ ReplaceAllString d rest repl
      | None \<Rightarrow> c # ReplaceAllString d cs repl)"
  by pat_completeness auto
termination
  by (relation "measure (\<lambda>(d, src, repl). length src)")
     (auto dest!: match_here_shorter simp del: match_here.simps)

definition pgInitializer_NewDsn :: "('w, 'v) driver \<Rightarrow> string \<Rightarrow> string \<Rightarrow> failure + string" where
  "pgInitializer_NewDsn d base newName =
     (if \<not> MatchString base
      then Inl (Fatal (Errorf (''invalid DSN provided, cannot find database name in '' @
                  [bq] @ base @ [bq])) [])
      else Inr (ReplaceAllString d base (''/'' @ newName @ ''?'')))"

section \<open>The provisioner (testdb.go)\<close>

text \<open>
  A method of an interface is a function on the world: it returns a value, or it reaches
  the error handler and the calling test halts (\<open>Inl\<close>). \<open>Db\<close> is the handle interface
  with the methods \<open>New\<close> and its callers use here, a \<open>Migrator\<close> and an \<open>Initializer\<close>
  are the two interfaces of the same names.
\<close>

type_synonym ('w, 'a) operation = "'w \<Rightarrow> (failure + 'a) \<times> 'w"

record 'w Db =
  Db_Name :: string
  Db_Dsn :: string
  Db_Drop :: "('w, unit) operation"

record 'w Migrator =
  Hash :: "('w, string) operation"
  Migrate :: "string \<Rightarrow> ('w, unit) operation"

record ('c, 'w) Initializer =
  Connect :: "string \<Rightarrow> ('w, 'c) operation"
  Lock :: "'c \<Rightarrow> string \<Rightarrow> ('w, unit) operation"
  Unlock :: "'c \<Rightarrow> string \<Rightarrow> ('w, unit) operation"
  Exists :: "'c \<Rightarrow> string \<Rightarrow> ('w, bool) operation"
  Create :: "'c \<Rightarrow> string \<Rightarrow> ('w, unit) operation"
  CreateFromTemplate :: "'c \<Rightarrow> string \<Rightarrow> string \<Rightarrow> ('w, unit) operation"
  NewDsn :: "string \<Rightarrow> string \<Rightarrow> ('w, string) operation"
  NewDb :: "string \<Rightarrow> string \<Rightarrow> ('w, 'w Db) operation"
  Remove :: "'c \<Rightarrow> string \<Rightarrow> ('w, unit) operation"

text \<open>
  The calls a test makes to its interfaces, in the order made, each with its outcome:
  this is the observation the properties of \<open>New\<close> are about.
\<close>

datatype 'c call =
    CallConnect string
  | CallHash
  | CallLock 'c string
  | CallExists 'c string
  | CallCreate 'c string
  | CallNewDsn string string
  | CallMigrate string
  | CallCreateFromTemplate 'c string string
  | CallUnlock 'c string
  | CallNewDb string string
  | CallRemove 'c string
  | CallDrop string

datatype 'c outcome = Failed failure | Done | Conn 'c | Bool bool | Str string

text \<open>
  The state of \<^verbatim>\<open>t testing.TB\<close> and of the world around it. \<open>cleanups\<close> are the
  functions registered with \<^verbatim>\<open>t.Cleanup\<close>, the last registered first. The closure
  \<^verbatim>\<open>func() { if !done { h.Remove(t, root, templateName) } }\<close> is \<open>RemoveUnlessDone\<close> with
  the place of its captured variable \<open>done\<close> in the store \<open>vars\<close>; the closure
  \<^verbatim>\<open>func() { db.Drop(t) }\<close> is \<open>DropDb\<close>.
\<close>

datatype ('c, 'w) cleanup =
    RemoveUnlessDone nat "('c, 'w) Initializer" 'c string
  | DropDb "'w Db"

record ('c, 'w) tb =
  world :: 'w
  cleanups :: "('c, 'w) cleanup list"
  vars :: "nat \<Rightarrow> bool"
  nvars :: nat
  calls :: "('c call \<times> 'c outcome) list"

type_synonym ('c, 'w, 'a) run = "('c, 'w) tb \<Rightarrow> (failure + 'a) \<times> ('c, 'w) tb"

definition ret :: "'a \<Rightarrow> ('c, 'w, 'a) run" where
  "ret x s = (Inr x, s)"

definition andThen :: "('c, 'w, 'a) run \<Rightarrow> ('a \<Rightarrow> ('c, 'w, 'b) run) \<Rightarrow> ('c, 'w, 'b) run" where
  "andThen r k s = (case r s of (Inl f, s') \<Rightarrow> (Inl f, s') | (Inr x, s') \<Rightarrow> k x s')"

definition call :: "'c call \<Rightarrow> ('a \<Rightarrow> 'c outcome) \<Rightarrow> ('w, 'a) operation \<Rightarrow> ('c, 'w, 'a) run" where
  "call c summary m s =
     (case m (world s) of
        (Inl f, w') \<Rightarrow> (Inl f, s\<lparr>world := w', calls := calls s @ [(c, Failed f)]\<rparr>)
      | (Inr x, w') \<Rightarrow> (Inr x, s\<lparr>world := w', calls := calls s @ [(c, summary x)]\<rparr>))"

text \<open>
  A method call on the migrator. The nil migrator has no methods: the call panics with a
  nil dereference.
\<close>

definition call_Hash :: "'w Migrator option \<Rightarrow> ('c, 'w, string) run" where
  "call_Hash m s =
     (case m of
        None \<Rightarrow> (Inl NilPointerDereference,
                  s\<lparr>calls := calls s @ [(CallHash, Failed NilPointerDereference)]\<rparr>)
      | Some mig \<Rightarrow> call CallHash Str (Hash mig) s)"

definition call_Migrate :: "'w Migrator option \<Rightarrow> string \<Rightarrow> ('c, 'w, unit) run" where
  "call_Migrate m dsn' s =
     (case m of
        None \<Rightarrow> (Inl NilPointerDereference,
                  s\<lparr>calls := calls s @ [(CallMigrate dsn', Failed NilPointerDereference)]\<rparr>)
      | Some mig \<Rightarrow> call (CallMigrate dsn') (\<lambda>u. Done) (Migrate mig dsn') s)"

definition new_var :: "('c, 'w, nat) run" where
  "new_var s = (Inr (nvars s), s\<lparr>vars := (vars s)(nvars s := False), nvars := Suc (nvars s)\<rparr>)"

definition set_var :: "nat \<Rightarrow> bool \<Rightarrow> ('c, 'w, unit) run" where
  "set_var i b s = (Inr (), s\<lparr>vars := (vars s)(i := b)\<rparr>)"

definition Cleanup :: "('c, 'w) cleanup \<Rightarrow> ('c, 'w, unit) run" where
  "Cleanup f s = (Inr (), s\<lparr>cleanups := f # cleanups s\<rparr>)"

text \<open>
  \<open>New\<close>, statement by statement. \<open>uuid\<close> is the text of \<^verbatim>\<open>uuid.New().String()\<close>; the
  \<^verbatim>\<open>strings.ReplaceAll(_, "-", "")\<close> removes its hyphens.
\<close>

definition New ::
  "('c, 'w) Initializer \<Rightarrow> 'w Migrator option \<Rightarrow> string \<Rightarrow> string \<Rightarrow> ('c, 'w, 'w Db) run" where
  "New h m dsn' uuid =
     andThen (call (CallConnect dsn') Conn (Connect h dsn')) (\<lambda>root.
     andThen (call_Hash m) (\<lambda>migrationHash.
     let templateName = ''test_template_'' @ migrationHash in
     andThen (call (CallLock root templateName) (\<lambda>u. Done) (Lock h root templateName)) (\<lambda>u.
     andThen (call (CallExists root templateName) Bool (Exists h root templateName)) (\<lambda>exists.
     andThen
       (if \<not> exists then
          andThen (call (CallCreate root templateName) (\<lambda>u. Done) (Create h root templateName)) (\<lambda>u.
          andThen new_var (\<lambda>done.
          andThen (Cleanup (RemoveUnlessDone done h root templateName)) (\<lambda>u.
          andThen (call (CallNewDsn dsn' templateName) Str (NewDsn h dsn' templateName)) (\<lambda>templateDsn.
          andThen (call_Migrate m templateDsn) (\<lambda>u.
          set_var done True)))))
        else ret ()) (\<lambda>u.
     let testDbName = ''test_db_'' @ filter (\<lambda>c. c \<noteq> CHR ''-'') uuid in
     andThen (call (CallCreateFromTemplate root templateName testDbName) (\<lambda>u. Done)
                (CreateFromTemplate h root templateName testDbName)) (\<lambda>u.
     andThen (call (CallUnlock root templateName) (\<lambda>u. Done) (Unlock h root templateName)) (\<lambda>u.
     andThen (call (CallNewDsn dsn' testDbName) Str (NewDsn h dsn' testDbName)) (\<lambda>testDbDsn.
     andThen (call (CallNewDb dsn' testDbDsn) (\<lambda>db. Done) (NewDb h dsn' testDbDsn)) (\<lambda>db.
     andThen (Cleanup (DropDb db)) (\<lambda>u.
     ret db))))))))))"

text \<open>
  The end of the test: the registered functions run, the last registered first. A cleanup
  that halts does not keep the others from running.
\<close>

fun run_cleanup :: "('c, 'w) cleanup \<Rightarrow> ('c, 'w) tb \<Rightarrow> ('c, 'w) tb" where
  "run_cleanup (RemoveUnlessDone done h root templateName) s =
     (if \<not> vars s done
      then snd (call (CallRemove root templateName) (\<lambda>u. Done) (Remove h root templateName) s)
      else s)"
| "run_cleanup (DropDb db) s = snd (call (CallDrop (Db_Dsn db)) (\<lambda>u. Done) (Db_Drop db) s)"

definition runCleanup :: "('c, 'w) tb \<Rightarrow> ('c, 'w) tb" where
  "runCleanup s = fold run_cleanup (cleanups s) (s\<lparr>cleanups := []\<rparr>)"

subsection \<open>Observations on a run\<close>

text \<open>The calls made between two states of a test.\<close>

definition new_calls :: "('c, 'w) tb \<Rightarrow> ('c, 'w) tb \<Rightarrow> ('c call \<times> 'c outcome) list" where
  "new_calls s s' = drop (length (calls s)) (calls s')"

fun is_Hash :: "'c call \<Rightarrow> bool" where
  "is_Hash CallHash = True"
| "is_Hash c = False"

fun is_Lock :: "'c call \<Rightarrow> bool" where
  "is_Lock (CallLock c n) = True"
| "is_Lock c = False"

fun is_Unlock :: "'c call \<Rightarrow> bool" where
  "is_Unlock (CallUnlock c n) = True"
| "is_Unlock c = False"

fun is_Exists :: "'c call \<Rightarrow> bool" where
  "is_Exists (CallExists c n) = True"
| "is_Exists c = False"

fun is_Create :: "'c call \<Rightarrow> bool" where
  "is_Create (CallCreate c n) = True"
| "is_Create c = False"

fun is_Migrate :: "'c call \<Rightarrow> bool" where
  "is_Migrate (CallMigrate d) = True"
| "is_Migrate c = False"

fun is_CreateFromTemplate :: "'c call \<Rightarrow> bool" where
  "is_CreateFromTemplate (CallCreateFromTemplate c t n) = True"
| "is_CreateFromTemplate c = False"


definition count_calls :: "('c call \<Rightarrow> bool) \<Rightarrow> ('c call \<times> 'c outcome) list \<Rightarrow> nat" where
  "count_calls P tr = length (filter (\<lambda>e. P (fst e)) tr)"

text \<open>The answers the existence checks of a run gave.\<close>

definition exists_answers :: "('c call \<times> 'c outcome) list \<Rightarrow> 'c outcome list" where
  "exists_answers tr = map snd (filter (\<lambda>e. is_Exists (fst e)) tr)"

text \<open>
  The calls of a \<open>New\<close> that finds no template and returns, and of one that finds the
  template and returns.
\<close>

definition first_use :: "string \<Rightarrow> string \<Rightarrow> 'c \<Rightarrow> string \<Rightarrow> string \<Rightarrow> string \<Rightarrow> ('c call \<times> 'c outcome) list" where
  "first_use dsn' uuid root h templateDsn testDbDsn =
     [(CallConnect dsn', Conn root),
      (CallHash, Str h),
      (CallLock root (''test_template_'' @ h), Done),
      (CallExists root (''test_template_'' @ h), Bool False),
      (CallCreate root (''test_template_'' @ h), Done),
      (CallNewDsn dsn' (''test_template_'' @ h), Str templateDsn),
      (CallMigrate templateDsn, Done),
      (CallCreateFromTemplate root (''test_template_'' @ h)
         (''test_db_'' @ filter (\<lambda>c. c \<noteq> CHR ''-'') uuid), Done),
      (CallUnlock root (''test_template_'' @ h), Done),
      (CallNewDsn dsn' (''test_db_'' @ filter (\<lambda>c. c \<noteq> CHR ''-'') uuid), Str testDbDsn),
      (CallNewDb dsn' testDbDsn, Done)]"

definition reuse :: "string \<Rightarrow> string \<Rightarrow> 'c \<Rightarrow> string \<Rightarrow> string \<Rightarrow> ('c call \<times> 'c outcome) list" where
  "reuse dsn' uuid root h testDbDsn =
     [(CallConnect dsn', Conn root),
      (CallHash, Str h),
      (CallLock root (''test_template_'' @ h), Done),
      (CallExists root (''test_template_'' @ h), Bool True),
      (CallCreateFromTemplate root (''test_template_'' @ h)
         (''test_db_'' @ filter (\<lambda>c. c \<noteq> CHR ''-'') uuid), Done),
      (CallUnlock root (''test_template_'' @ h), Done),
      (CallNewDsn dsn' (''test_db_'' @ filter (\<lambda>c. c \<noteq> CHR ''-'') uuid), Str testDbDsn),
      (CallNewDb dsn' testDbDsn, Done)]"


text \<open>The state of a test that has not started, in a given world.\<close>

definition t0 :: "'w \<Rightarrow> ('c, 'w) tb" where
  "t0 w = \<lparr>world = w, cleanups = [], vars = (\<lambda>i. False), nvars = 0, calls = []\<rparr>"

subsection \<open>NewPg\<close>

text \<open>
  \<open>pgInitializer\<close> as an \<open>Initializer\<close>, the handle \<open>PgDb\<close> as a \<open>Db\<close>. The \<open>Drop\<close> of the
  interface value works on the handle as \<open>NewDb\<close> made it.
\<close>

definition PgDb_Db :: "('w, 'v) driver \<Rightarrow> PgDb \<Rightarrow> 'w Db" where
  "PgDb_Db d p =
     \<lparr>Db_Name = Name p, Db_Dsn = Dsn p,
      Db_Drop = (\<lambda>w. case Drop d p w of (r, p', w') \<Rightarrow> (r, w'))\<rparr>"

definition pgInitializer :: "('w, 'v) driver \<Rightarrow> (conn, 'w) Initializer" where
  "pgInitializer d =
     \<lparr>Connect = pgInitializer_Connect d,
      Lock = pgInitializer_Lock d,
      Unlock = pgInitializer_Unlock d,
      Exists = pgInitializer_Exists d,
      Create = pgInitializer_Create d,
      CreateFromTemplate = pgInitializer_CreateFromTemplate d,
      NewDsn = (\<lambda>base newName w. (pgInitializer_NewDsn d base newName, w)),
      NewDb = (\<lambda>rootDsn' dsn' w. (map_sum id (PgDb_Db d) (pgInitializer_NewDb d rootDsn' dsn'), w)),
      Remove = pgInitializer_Remove d\<rparr>"

definition NewPg ::
  "('w, 'v) driver \<Rightarrow> string \<Rightarrow> 'w Migrator option \<Rightarrow> string \<Rightarrow> (conn, 'w, 'w Db) run" where
  "NewPg d dsn' migrator uuid = New (pgInitializer d) migrator dsn' uuid"

section \<open>A backend in memory\<close>

text \<open>
  An \<open>Initializer\<close> whose server is a record: the databases that exist, the connection
  that holds each named lock, the number of connections made, and the targets on which
  \<open>Migrate\<close> was invoked, in the order of the invocations. It follows the comments of the
  interface: \<open>Lock\<close> returns when the lock is free and waits while another connection
  holds it, \<open>Exists\<close> tells whether the database exists, \<open>Create\<close> makes a new one,
  \<open>CreateFromTemplate\<close> needs the template, \<open>Remove\<close> removes. A connection target of this
  backend is the name of the database.
\<close>

record server =
  dbs :: "string set"
  holder :: "string \<Rightarrow> conn option"
  nconns :: nat
  migrations :: "string list"

definition mem_Connect :: "string \<Rightarrow> (server, conn) operation" where
  "mem_Connect dsn' w = (Inr (nconns w), w\<lparr>nconns := Suc (nconns w)\<rparr>)"

definition mem_Lock :: "conn \<Rightarrow> string \<Rightarrow> (server, unit) operation" where
  "mem_Lock c name' w =
     (case holder w name' of
        None \<Rightarrow> (Inr (), w\<lparr>holder := (holder w)(name' := Some c)\<rparr>)
      | Some c' \<Rightarrow> (Inl BlocksForever, w))"

definition mem_Unlock :: "conn \<Rightarrow> string \<Rightarrow> (server, unit) operation" where
  "mem_Unlock c name' w =
     (if holder w name' = Some c then (Inr (), w\<lparr>holder := (holder w)(name' := None)\<rparr>)
      else (Inr (), w))"

definition mem_Exists :: "conn \<Rightarrow> string \<Rightarrow> (server, bool) operation" where
  "mem_Exists c name' w = (Inr (name' \<in> dbs w), w)"

definition mem_Create :: "conn \<Rightarrow> string \<Rightarrow> (server, unit) operation" where
  "mem_Create c name' w =
     (if name' \<in> dbs w
      then (Inl (Fatal (Errorf (''database '' @ name' @ '' already exists'')) [AnySlice []]), w)
      else (Inr (), w\<lparr>dbs := insert name' (dbs w)\<rparr>))"

definition mem_CreateFromTemplate :: "conn \<Rightarrow> string \<Rightarrow> string \<Rightarrow> (server, unit) operation" where
  "mem_CreateFromTemplate c template name' w =
     (if template \<notin> dbs w
      then (Inl (Fatal (Errorf (''template database '' @ template @ '' does not exist''))
                  [AnySlice []]), w)
      else if name' \<in> dbs w
      then (Inl (Fatal (Errorf (''database '' @ name' @ '' already exists'')) [AnySlice []]), w)
      else (Inr (), w\<lparr>dbs := insert name' (dbs w)\<rparr>))"

definition mem_Remove :: "conn \<Rightarrow> string \<Rightarrow> (server, unit) operation" where
  "mem_Remove c name' w = (Inr (), w\<lparr>dbs := dbs w - {name'}\<rparr>)"

definition mem_Db :: "string \<Rightarrow> server Db" where
  "mem_Db dsn' =
     \<lparr>Db_Name = dsn', Db_Dsn = dsn',
      Db_Drop = (\<lambda>w. (Inr (), w\<lparr>dbs := dbs w - {dsn'}\<rparr>))\<rparr>"

definition memInitializer :: "(conn, server) Initializer" where
  "memInitializer =
     \<lparr>Connect = mem_Connect,
      Lock = mem_Lock,
      Unlock = mem_Unlock,
      Exists = mem_Exists,
      Create = mem_Create,
      CreateFromTemplate = mem_CreateFromTemplate,
      NewDsn = (\<lambda>base newName w. (Inr newName, w)),
      NewDb = (\<lambda>rootDsn' dsn' w. (Inr (mem_Db dsn'), w)),
      Remove = mem_Remove\<rparr>"

text \<open>
  A migrator with a fixed hash. Every invocation of \<open>Migrate\<close> is recorded; it succeeds
  or fails as \<open>ok\<close> says.
\<close>

definition memMigrator :: "string \<Rightarrow> bool \<Rightarrow> server Migrator" where
  "memMigrator h ok =
     \<lparr>Hash = (\<lambda>w. (Inr h, w)),
      Migrate = (\<lambda>dsn' w.
        (if ok then Inr ()
         else Inl (Fatal (Errorf ''failed to migrate test DB'') [AnySlice []]),
         w\<lparr>migrations := migrations w @ [dsn']\<rparr>))\<rparr>"

definition fresh :: server where
  "fresh = \<lparr>dbs = {}, holder = (\<lambda>n. None), nconns = 0, migrations = []\<rparr>"

section \<open>Drivers for concrete runs\<close>

text \<open>
  \<open>quiet row\<close> is a driver on which every connection and every statement succeeds and
  every scanned row is \<open>row\<close>. \<open>recording d\<close> is the driver \<open>d\<close> with a log of the
  statements sent, in the order in which they were sent.
\<close>

definition quiet :: "error + 'v \<Rightarrow> (unit, 'v) driver" where
  "quiet row =
     \<lparr>pgx_Connect = (\<lambda>s w. (Inr 0, w)),
      Exec = (\<lambda>c sql args w. (None, w)),
      QueryRow_bool = (\<lambda>c sql args w. (Inr True, w)),
      QueryRow = (\<lambda>c sql args w. (row, w)),
      Close = (\<lambda>c w. w),
      ParseConfig = (\<lambda>s. Inr s),
      Expand = (\<lambda>template m. template)\<rparr>"

definition recording :: "('w, 'v) driver \<Rightarrow> ('w \<times> (conn \<times> string) list, 'v) driver" where
  "recording d =
     \<lparr>pgx_Connect = (\<lambda>s (w, l). case pgx_Connect d s w of (r, w') \<Rightarrow> (r, (w', l))),
      Exec = (\<lambda>c sql args (w, l).
        case Exec d c sql args w of (r, w') \<Rightarrow> (r, (w', l @ [(c, sql)]))),
      QueryRow_bool = (\<lambda>c sql args (w, l).
        case QueryRow_bool d c sql args w of (r, w') \<Rightarrow> (r, (w', l @ [(c, sql)]))),
      QueryRow = (\<lambda>c sql args (w, l).
        case QueryRow d c sql args w of (r, w') \<Rightarrow> (r, (w', l @ [(c, sql)]))),
      Close = (\<lambda>c (w, l). (Close d c w, l)),
      ParseConfig = ParseConfig d,
      Expand = Expand d\<rparr>"

text \<open>
  A server whose databases are in use: it executes every statement but a \<open>DROP DATABASE\<close>,
  which it refuses, as Postgres does while sessions are open on the database. Its world is
  the list of the statements it executed; a database exists when its \<open>CREATE DATABASE\<close> is
  among them. A migrator whose \<open>Migrate\<close> fails.
\<close>

definition inUse :: "(string list, unit) driver" where
  "inUse =
     \<lparr>pgx_Connect = (\<lambda>s w. (Inr 0, w)),
      Exec = (\<lambda>c sql args w.
        if take 13 sql = ''DROP DATABASE''
        then (Some (Errorf ''database is being accessed by other users''), w)
        else (None, w @ [sql])),
      QueryRow_bool = (\<lambda>c sql args w.
        case args of
          [ArgAny n] \<Rightarrow> (if createSql n \<in> set w then Inr True else Inl ErrNoRows, w)
        | _ \<Rightarrow> (Inl ErrNoRows, w)),
      QueryRow = (\<lambda>c sql args w. (Inl ErrNoRows, w)),
      Close = (\<lambda>c w. w),
      ParseConfig = (\<lambda>s. Inr s),
      Expand = (\<lambda>template m. template)\<rparr>"

definition failingMigrator :: "string \<Rightarrow> 'w Migrator" where
  "failingMigrator h =
     \<lparr>Hash = (\<lambda>w. (Inr h, w)),
      Migrate = (\<lambda>dsn' w. (Inl (Fatal (Errorf ''failed to migrate test DB'') [AnySlice []]), w))\<rparr>"

text \<open>A driver that cannot reach its server, and a migrator with a fixed hash.\<close>

definition down :: "(unit, unit) driver" where
  "down = (quiet (Inr ()))\<lparr>pgx_Connect := (\<lambda>s w. (Inl (Errorf ''connection refused''), w))\<rparr>"

definition neverMigrator :: "string \<Rightarrow> 'w Migrator" where
  "neverMigrator h = \<lparr>Hash = (\<lambda>w. (Inr h, w)), Migrate = (\<lambda>dsn' w. (Inr (), w))\<rparr>"

definition handle0 :: PgDb where
  "handle0 = \<lparr>name = ''test_db_1'', dsn = ''postgresql://h/test_db_1?u=v'',
     rootDsn = ''postgresql://h/postgres?u=v'', conns = []\<rparr>"

section \<open>Concrete runs on the backend in memory\<close>

text \<open>
  Two calls of \<open>New\<close>, one after the other, on a server without databases, and a call
  whose migration fails.
\<close>

definition run1 :: "(failure + server Db) \<times> (conn, server) tb" where
  "run1 = New memInitializer (Some (memMigrator ''abc'' True)) ''postgres''
     ''123e4567-e89b-12d3-a456-426614174000'' (t0 fresh)"

definition run2 :: "(failure + server Db) \<times> (conn, server) tb" where
  "run2 = New memInitializer (Some (memMigrator ''abc'' True)) ''postgres''
     ''123e4567-e89b-12d3-a456-426614174001'' (snd run1)"

definition runF :: "(failure + server Db) \<times> (conn, server) tb" where
  "runF = New memInitializer (Some (memMigrator ''abc'' False)) ''postgres''
     ''123e4567-e89b-12d3-a456-426614174000'' (t0 fresh)"

definition runNil :: "(failure + server Db) \<times> (conn, server) tb" where
  "runNil = New memInitializer None ''postgres'' ''123e4567-e89b-12d3-a456-426614174000'' (t0 fresh)"

text \<open>
  A call of \<open>NewPg\<close> whose migration fails, on the server whose databases are in use, and
  the same call with the statements recorded.
\<close>

definition runInUse :: "(failure + string list Db) \<times> (conn, string list) tb" where
  "runInUse = NewPg inUse ''postgresql://h/postgres?u=v'' (Some (failingMigrator ''abc''))
     ''123e4567-e89b-12d3-a456-426614174000'' (t0 [])"


section \<open>Concurrent calls of New\<close>

text \<open>
  Several calls of \<open>New\<close> run against one server: the tests of one package running in
  parallel, or the test binaries of several packages. Each call is a process that makes the
  calls of \<open>New\<close> in the order of the source, one call of the \<open>Initializer\<close> or of the
  \<open>Migrator\<close> per step; the steps of the processes interleave in any order. The server is
  the backend in memory; every call but \<open>Migrate\<close> can in addition be made to fail, which
  stops the process as the halting \<open>ErrorHandler\<close> does.

  A process keeps what \<open>New\<close> keeps in local variables: where it is, the root connection,
  whether the cleanup that removes the template is registered, the variable \<open>done\<close> that
  this cleanup reads, and whether the handle was returned (so that \<open>db.Drop\<close> is
  registered). \<open>New\<close> never closes the root connection, so a lock that \<open>Unlock\<close> did not
  release stays held. A process that asks for a lock held by a connection has no step:
  \<open>pg_advisory_lock\<close> waits.

  At the end of its test (\<open>Returned\<close> or \<open>Halted\<close>) a process runs its cleanups, last
  registered first: \<open>db.Drop\<close>, then the removal of the template unless \<open>done\<close> is set.
\<close>

datatype pc =
    AtConnect | AtHash | AtLock | AtExists | AtCreate | AtTemplateDsn | AtMigrate
  | AtClone | AtUnlock | AtNewDb | Returned | Halted | Ended

record proc =
  at :: pc
  rootConn :: "conn option"
  registered :: bool
  doneVar :: bool
  handle :: bool

record system =
  srv :: server
  procs :: "nat \<Rightarrow> proc"

text \<open>
  \<open>attempt ok m\<close> is the call \<open>m\<close>, or its failure when \<open>ok\<close> is false. \<open>next_step\<close>
  continues with the answer of a call, stops the process on a failure, and has no result
  when the call waits.
\<close>

definition attempt :: "bool \<Rightarrow> (server, 'a) operation \<Rightarrow> (server, 'a) operation" where
  "attempt ok m w = (if ok then m w else (Inl (Fatal (Errorf ''injected failure'') [AnySlice []]), w))"

definition next_step ::
  "proc \<Rightarrow> (failure + 'a) \<times> server \<Rightarrow> ('a \<Rightarrow> proc) \<Rightarrow> (proc \<times> server) option" where
  "next_step pr res k =
     (case res of
        (Inr x, w') \<Rightarrow> Some (k x, w')
      | (Inl BlocksForever, w') \<Rightarrow> None
      | (Inl f, w') \<Rightarrow> Some (pr\<lparr>at := Halted\<rparr>, w'))"

definition on_root :: "proc \<Rightarrow> (conn \<Rightarrow> 'a option) \<Rightarrow> 'a option" where
  "on_root pr f = (case rootConn pr of None \<Rightarrow> None | Some root \<Rightarrow> f root)"

definition test_end :: "string \<Rightarrow> string \<Rightarrow> bool \<Rightarrow> proc \<Rightarrow> server \<Rightarrow> server" where
  "test_end templateName testDbName ok pr w =
     (let w1 = (if handle pr then snd (Db_Drop (mem_Db testDbName) w) else w) in
      if registered pr \<and> \<not> doneVar pr
      then (case rootConn pr of
              None \<Rightarrow> w1
            | Some root \<Rightarrow> snd (attempt ok (mem_Remove root templateName) w1))
      else w1)"

definition advance ::
  "string \<Rightarrow> string \<Rightarrow> bool \<Rightarrow> proc \<Rightarrow> server \<Rightarrow> (proc \<times> server) option" where
  "advance h uuid ok pr w =
     (let templateName = ''test_template_'' @ h;
          testDbName = ''test_db_'' @ filter (\<lambda>c. c \<noteq> CHR ''-'') uuid in
      case at pr of
        AtConnect \<Rightarrow>
          next_step pr (attempt ok (mem_Connect ''root'') w)
            (\<lambda>root. pr\<lparr>at := AtHash, rootConn := Some root\<rparr>)
      | AtHash \<Rightarrow>
          next_step pr (attempt ok (Hash (memMigrator h True)) w) (\<lambda>migrationHash. pr\<lparr>at := AtLock\<rparr>)
      | AtLock \<Rightarrow>
          on_root pr (\<lambda>root.
            next_step pr (attempt ok (mem_Lock root templateName) w) (\<lambda>u. pr\<lparr>at := AtExists\<rparr>))
      | AtExists \<Rightarrow>
          on_root pr (\<lambda>root.
            next_step pr (attempt ok (mem_Exists root templateName) w)
              (\<lambda>exists. pr\<lparr>at := (if \<not> exists then AtCreate else AtClone)\<rparr>))
      | AtCreate \<Rightarrow>
          on_root pr (\<lambda>root.
            next_step pr (attempt ok (mem_Create root templateName) w)
              (\<lambda>u. pr\<lparr>at := AtTemplateDsn\<rparr>))
      | AtTemplateDsn \<Rightarrow>
          next_step (pr\<lparr>registered := True\<rparr>)
            (attempt ok (NewDsn memInitializer ''root'' templateName) w)
            (\<lambda>templateDsn. pr\<lparr>registered := True, at := AtMigrate\<rparr>)
      | AtMigrate \<Rightarrow>
          next_step pr (Migrate (memMigrator h ok) templateName w)
            (\<lambda>u. pr\<lparr>doneVar := True, at := AtClone\<rparr>)
      | AtClone \<Rightarrow>
          on_root pr (\<lambda>root.
            next_step pr (attempt ok (mem_CreateFromTemplate root templateName testDbName) w)
              (\<lambda>u. pr\<lparr>at := AtUnlock\<rparr>))
      | AtUnlock \<Rightarrow>
          on_root pr (\<lambda>root.
            next_step pr (attempt ok (mem_Unlock root templateName) w) (\<lambda>u. pr\<lparr>at := AtNewDb\<rparr>))
      | AtNewDb \<Rightarrow>
          next_step pr (attempt ok (NewDsn memInitializer ''root'' testDbName) w)
            (\<lambda>testDbDsn. pr\<lparr>at := Returned, handle := True\<rparr>)
      | Returned \<Rightarrow> Some (pr\<lparr>at := Ended\<rparr>, test_end templateName testDbName ok pr w)
      | Halted \<Rightarrow> Some (pr\<lparr>at := Ended\<rparr>, test_end templateName testDbName ok pr w)
      | Ended \<Rightarrow> None)"

text \<open>
  A schedule is a list of pairs \<open>(p, ok)\<close>: process \<open>p\<close> makes its next call, which
  succeeds if \<open>ok\<close> (and the backend agrees). \<open>hashOf p\<close> is the hash of the migrator of
  process \<open>p\<close>, \<open>uuidOf p\<close> the uuid it draws.
\<close>

definition step ::
  "(nat \<Rightarrow> string) \<Rightarrow> (nat \<Rightarrow> string) \<Rightarrow> nat \<times> bool \<Rightarrow> system \<Rightarrow> system option" where
  "step hashOf uuidOf a sys =
     (case a of (p, ok) \<Rightarrow>
        (case advance (hashOf p) (uuidOf p) ok (procs sys p) (srv sys) of
           None \<Rightarrow> None
         | Some (pr', w') \<Rightarrow> Some \<lparr>srv = w', procs = (procs sys)(p := pr')\<rparr>))"

fun run_schedule ::
  "(nat \<Rightarrow> string) \<Rightarrow> (nat \<Rightarrow> string) \<Rightarrow> (nat \<times> bool) list \<Rightarrow> system \<Rightarrow> system option" where
  "run_schedule hashOf uuidOf [] sys = Some sys"
| "run_schedule hashOf uuidOf (a # as) sys =
     (case step hashOf uuidOf a sys of
        None \<Rightarrow> None
      | Some sys' \<Rightarrow> run_schedule hashOf uuidOf as sys')"

definition init :: "server \<Rightarrow> system" where
  "init w =
     \<lparr>srv = w,
      procs = (\<lambda>p. \<lparr>at = AtConnect, rootConn = None, registered = False, doneVar = False,
                     handle = False\<rparr>)\<rparr>"

definition tmpl :: "(nat \<Rightarrow> string) \<Rightarrow> nat \<Rightarrow> string" where
  "tmpl hashOf p = ''test_template_'' @ hashOf p"


subsection \<open>Invariants of the concurrent calls\<close>

text \<open>
  \<open>holds sys T q\<close>: the root connection of process \<open>q\<close> holds the lock \<open>T\<close>. The
  invariants: root connections are distinct (\<open>inv_conn\<close>); between \<open>Lock\<close> and \<open>Unlock\<close> a
  process holds the lock of its template (\<open>inv_lock\<close>); the cleanup is registered only after
  \<open>Create\<close> (\<open>inv_unreg\<close>) and its variable \<open>done\<close> is set once \<open>Migrate\<close> returned
  (\<open>inv_done\<close>); a process stopped with a pending removal still holds the lock
  (\<open>inv_pending\<close>); no template was migrated twice (\<open>inv_once\<close>); a process between
  \<open>Create\<close> and \<open>Migrate\<close> works on a template that was never migrated (\<open>inv_fresh\<close>) and
  that exists (\<open>inv_tmpl\<close>); a migrated template exists, or the process that migrated it
  stopped holding the lock (\<open>inv_mig\<close>); an existing template was there at the start, or
  was migrated, or is being set up under the lock (\<open>inv_origin\<close>); a process that cloned
  its template cloned one that was there at the start or was migrated (\<open>inv_cloned\<close>).
\<close>

definition holds :: "system \<Rightarrow> string \<Rightarrow> nat \<Rightarrow> bool" where
  "holds sys T q = (\<exists>c. rootConn (procs sys q) = Some c \<and> holder (srv sys) T = Some c)"













subsection \<open>Two concurrent calls\<close>


section \<open>Reasoning about runs\<close>

text \<open>
  \<open>after r s Q\<close>: the result of the run \<open>r\<close> from the state \<open>s\<close> satisfies \<open>Q\<close>. The rules
  below compute it statement by statement, one case distinction per call.
\<close>

definition after :: "('c, 'w, 'a) run \<Rightarrow> ('c, 'w) tb \<Rightarrow> ((failure + 'a) \<times> ('c, 'w) tb \<Rightarrow> bool) \<Rightarrow> bool" where
  "after r s Q = Q (r s)"

lemma after_call:
  "after (andThen (call c summary m) k) s Q =
     (case m (world s) of
        (Inl f, w') \<Rightarrow> Q (Inl f, s\<lparr>world := w', calls := calls s @ [(c, Failed f)]\<rparr>)
      | (Inr x, w') \<Rightarrow> after (k x) (s\<lparr>world := w', calls := calls s @ [(c, summary x)]\<rparr>) Q)"
  by (simp add: after_def andThen_def call_def split: prod.split sum.split)

lemma after_call_Hash:
  "after (andThen (call_Hash m) k) s Q =
     (case m of
        None \<Rightarrow> Q (Inl NilPointerDereference,
                  s\<lparr>calls := calls s @ [(CallHash, Failed NilPointerDereference)]\<rparr>)
      | Some mig \<Rightarrow> after (andThen (call CallHash Str (Hash mig)) k) s Q)"
  by (simp add: after_def andThen_def call_Hash_def split: option.split)

lemma after_call_Migrate:
  "after (andThen (call_Migrate m dsn') k) s Q =
     (case m of
        None \<Rightarrow> Q (Inl NilPointerDereference,
                  s\<lparr>calls := calls s @ [(CallMigrate dsn', Failed NilPointerDereference)]\<rparr>)
      | Some mig \<Rightarrow> after (andThen (call (CallMigrate dsn') (\<lambda>u. Done) (Migrate mig dsn')) k) s Q)"
  by (simp add: after_def andThen_def call_Migrate_def split: option.split)

lemma after_new_var:
  "after (andThen new_var k) s Q =
     after (k (nvars s)) (s\<lparr>vars := (vars s)(nvars s := False), nvars := Suc (nvars s)\<rparr>) Q"
  by (simp add: after_def andThen_def new_var_def)

lemma after_set_var:
  "after (andThen (set_var i b) k) s Q = after (k ()) (s\<lparr>vars := (vars s)(i := b)\<rparr>) Q"
  by (simp add: after_def andThen_def set_var_def)

lemma after_Cleanup:
  "after (andThen (Cleanup f) k) s Q = after (k ()) (s\<lparr>cleanups := f # cleanups s\<rparr>) Q"
  by (simp add: after_def andThen_def Cleanup_def)

lemma after_andThen_ret: "after (andThen (ret x) k) s Q = after (k x) s Q"
  by (simp add: after_def andThen_def ret_def)

lemma after_ret: "after (ret x) s Q = Q (Inr x, s)"
  by (simp add: after_def ret_def)

lemma after_if:
  "after (andThen (if b then r1 else r2) k) s Q =
     (if b then after (andThen r1 k) s Q else after (andThen r2 k) s Q)"
  by simp

lemma after_assoc: "after (andThen (andThen r f) k) s Q = after (andThen r (\<lambda>x. andThen (f x) k)) s Q"
  by (simp add: after_def andThen_def split: prod.split sum.split)

lemmas after_rules = after_assoc after_call after_call_Hash after_call_Migrate after_new_var
  after_set_var after_Cleanup after_andThen_ret after_ret after_if Let_def

lemma afterI: "after r s Q \<Longrightarrow> Q (r s)"
  by (simp add: after_def)

text \<open>The same rules for the evaluation of a run on concrete arguments.\<close>

lemma andThen_call:
  "andThen (call c summary m) k s =
     (case m (world s) of
        (Inl f, w') \<Rightarrow> (Inl f, s\<lparr>world := w', calls := calls s @ [(c, Failed f)]\<rparr>)
      | (Inr x, w') \<Rightarrow> k x (s\<lparr>world := w', calls := calls s @ [(c, summary x)]\<rparr>))"
  by (simp add: andThen_def call_def split: prod.split sum.split)

lemma andThen_call_Hash:
  "andThen (call_Hash m) k s =
     (case m of
        None \<Rightarrow> (Inl NilPointerDereference,
                  s\<lparr>calls := calls s @ [(CallHash, Failed NilPointerDereference)]\<rparr>)
      | Some mig \<Rightarrow> andThen (call CallHash Str (Hash mig)) k s)"
  by (simp add: andThen_def call_Hash_def split: option.split)

lemma andThen_call_Migrate:
  "andThen (call_Migrate m dsn') k s =
     (case m of
        None \<Rightarrow> (Inl NilPointerDereference,
                  s\<lparr>calls := calls s @ [(CallMigrate dsn', Failed NilPointerDereference)]\<rparr>)
      | Some mig \<Rightarrow> andThen (call (CallMigrate dsn') (\<lambda>u. Done) (Migrate mig dsn')) k s)"
  by (simp add: andThen_def call_Migrate_def split: option.split)

lemma andThen_new_var:
  "andThen new_var k s = k (nvars s) (s\<lparr>vars := (vars s)(nvars s := False), nvars := Suc (nvars s)\<rparr>)"
  by (simp add: andThen_def new_var_def)

lemma andThen_set_var: "andThen (set_var i b) k s = k () (s\<lparr>vars := (vars s)(i := b)\<rparr>)"
  by (simp add: andThen_def set_var_def)

lemma andThen_Cleanup: "andThen (Cleanup f) k s = k () (s\<lparr>cleanups := f # cleanups s\<rparr>)"
  by (simp add: andThen_def Cleanup_def)

lemma andThen_ret: "andThen (ret x) k s = k x s"
  by (simp add: andThen_def ret_def)

lemma andThen_if: "andThen (if b then r1 else r2) k s = (if b then andThen r1 k s else andThen r2 k s)"
  by simp

lemma andThen_assoc: "andThen (andThen r f) k s = andThen r (\<lambda>x. andThen (f x) k) s"
  by (simp add: andThen_def split: prod.split sum.split)

lemmas exec = andThen_assoc andThen_call andThen_call_Hash andThen_call_Migrate andThen_new_var
  andThen_set_var andThen_Cleanup andThen_ret andThen_if ret_def Let_def





lemmas mem_defs = memInitializer_def mem_Connect_def mem_Lock_def mem_Unlock_def mem_Exists_def
  mem_Create_def mem_CreateFromTemplate_def mem_Remove_def mem_Db_def memMigrator_def fresh_def
  t0_def

lemma run1_calls: "calls (snd run1) = first_use ''postgres'' ''123e4567-e89b-12d3-a456-426614174000'' 0 ''abc'' ''test_template_abc'' ''test_db_123e4567e89b12d3a456426614174000''"
  by (simp add: run1_def New_def exec mem_defs first_use_def)

lemma run1_result: "fst run1 = Inr (mem_Db ''test_db_123e4567e89b12d3a456426614174000'')"
  by (simp add: run1_def New_def exec mem_defs)

lemma run1_world: "dbs (world (snd run1)) = {''test_template_abc'', ''test_db_123e4567e89b12d3a456426614174000''}"
  "holder (world (snd run1)) n = None" "migrations (world (snd run1)) = [''test_template_abc'']"
  "nconns (world (snd run1)) = 1"
  by (auto simp add: run1_def New_def exec mem_defs)

section \<open>Properties of the backend\<close>

text \<open>
  C9. For every handle, \<open>Name\<close> returns the same string as \<open>Dsn\<close>, the connection string:
  whatever the \<open>name\<close> field holds, the result is the \<open>dsn\<close> field.
\<close>

theorem Name_returns_dsn: "Name p = Dsn p \<and> Name (p\<lparr>name := n, dsn := s\<rparr>) = s"
  by (simp add: Name_def Dsn_def)

text \<open>
  C8. When the single row that \<open>QueryValue\<close> or the closure of \<open>QueryRow\<close> scans gives an
  error, the error handler receives that error; its extra argument carries the message
  about a query that returned 0 rows exactly when the error is \<open>ErrNoRows\<close>, and carries
  no message for any other error.
\<close>

theorem zero_rows_report:
  fixes d :: "('w, 'v) driver"
  assumes "connect d p (dsn p) w = (Inr c, p', w')"
    and "QueryRow d c sql args w' = (Inl err, w'')"
  shows "fst (QueryValue d p sql args w) =
           Inl (Fatal err [AnySlice (if errors_Is_ErrNoRows err
              then [AnyString ''test database query for a single value returned 0 rows'']
              else [])]) \<and>
         PgDb_QueryRow d p sql args w = (Inr (Inl err), p', w'') \<and>
         QueryRow_into (Inl err :: error + 'v) =
           Inl (Fatal err [AnySlice (if errors_Is_ErrNoRows err
              then [AnyString ''test database query for a single row returned 0 rows'']
              else [])])"
  using assms by (simp add: QueryValue_def PgDb_QueryRow_def QueryRow_into_def)

theorem zero_rows_report_witness:
  "fst (QueryValue (quiet (Inl ErrNoRows :: error + unit)) handle0 ''SELECT 1 WHERE false'' [] ()) =
     Inl (Fatal ErrNoRows [AnySlice
        [AnyString ''test database query for a single value returned 0 rows'']]) \<and>
   QueryRow_into (Inl ErrNoRows :: error + unit) =
     Inl (Fatal ErrNoRows [AnySlice
        [AnyString ''test database query for a single row returned 0 rows'']])"
proof -
  have c: "connect (quiet (Inl ErrNoRows :: error + unit)) handle0 (dsn handle0) () =
      (Inr 0, handle0\<lparr>conns := [(dsn handle0, 0)]\<rparr>, ())"
    by (simp add: connect_def quiet_def handle0_def)
  have q: "QueryRow (quiet (Inl ErrNoRows :: error + unit)) 0 ''SELECT 1 WHERE false'' [] () =
      (Inl ErrNoRows, ())"
    by (simp add: quiet_def)
  from zero_rows_report [OF c q] show ?thesis by simp
qed

text \<open>
  C5. \<open>verifyPgDbName\<close> at a name with square brackets: the range \<open>A-z\<close> of the class
  holds the six characters between \<open>Z\<close> and \<open>a\<close>, so the name is accepted and
  \<open>Create\<close> sends a statement with it.
\<close>

theorem verifyPgDbName_accepts_punctuation:
  "verifyPgDbName ''test_db_[1]'' = Inr ''test_db_[1]'' \<and>
   snd (snd (pgInitializer_Create (recording (quiet (Inr ()))) 0 ''test_db_[1]'' ((), []))) =
     [(0, ''CREATE DATABASE '' @ [dq] @ ''test_db_[1]'' @ [dq])]"
  by (simp add: verifyPgDbName_def pgDbNameRegex_MatchString_def pgDbNameClass_def in_range_def
      pgInitializer_Create_def exec_must_def recording_def quiet_def createSql_def)

subsection \<open>The statements a backend operation sends\<close>

lemma recording_Close_log:
  "snd (fold (\<lambda>(k, c). Close (recording d) c) cs (w, l)) = l"
  by (induction cs arbitrary: w) (auto simp: recording_def)

lemma recording_connect_log:
  "snd (snd (connect (recording d) p s (w, l))) = (w', l') \<Longrightarrow> l' = l"
  by (auto simp: connect_def recording_def split: option.splits prod.splits sum.splits)

lemma recording_exec_must:
  "exec_must (recording d) c sql args (w, l) =
     (case Exec d c sql args w of (err, w') \<Rightarrow> (must err [], (w', l @ [(c, sql)])))"
  by (simp add: exec_must_def recording_def split: prod.splits)

lemma recording_Close: "Close (recording d) c (w, l) = (Close d c w, l)"
  by (simp add: recording_def)

lemma verifyPgDbName_Inr: "verifyPgDbName n = Inr m \<Longrightarrow> m = n \<and> pgDbNameRegex_MatchString n"
  by (auto simp: verifyPgDbName_def split: if_splits)

lemma Remove_log:
  fixes d :: "('w, 'v) driver"
  shows "snd (snd (pgInitializer_Remove (recording d) c n wl)) =
         (if pgDbNameRegex_MatchString n then snd wl @ [(c, removeSql n)] else snd wl)"
  by (cases wl)
     (simp add: pgInitializer_Remove_def verifyPgDbName_def recording_exec_must split: prod.splits)


text \<open>
  C7. \<open>Remove\<close> sends one statement, the \<open>DROP DATABASE IF EXISTS\<close> of the name, when
  the name passes \<open>verifyPgDbName\<close>, and no statement otherwise: nothing that terminates
  connections. The operation that terminates the sessions of a database before dropping it
  is the handle's \<open>Drop\<close>: a \<open>Drop\<close> that returns has sent the \<open>pg_terminate_backend\<close>
  query for its database and then the \<open>DROP DATABASE IF EXISTS\<close>, in this order, on the
  root connection.
\<close>

theorem Remove_only_drops:
  fixes d :: "('w, 'v) driver"
  shows "snd (snd (pgInitializer_Remove (recording d) c n (w, l))) =
           (if pgDbNameRegex_MatchString n then l @ [(c, removeSql n)] else l) \<and>
         (fst (Drop (recording d) p (w, l)) = Inr () \<longrightarrow>
            (\<exists>root. snd (snd (snd (Drop (recording d) p (w, l)))) =
               l @ [(root, closeConns (name p)), (root, dropSql (name p))]))"
proof (intro conjI impI)
  show "snd (snd (pgInitializer_Remove (recording d) c n (w, l))) =
          (if pgDbNameRegex_MatchString n then l @ [(c, removeSql n)] else l)"
    using Remove_log [of d c n "(w, l)"] by simp
next
  assume ok: "fst (Drop (recording d) p (w, l)) = Inr ()"
  obtain w1 where f: "fold (\<lambda>(k, c). Close (recording d) c) (conns p) (w, l) = (w1, l)"
    using recording_Close_log [of d "conns p" w l]
    by (cases "fold (\<lambda>(k, c). Close (recording d) c) (conns p) (w, l)") simp
  obtain r p1 w2 l2 where c: "connect (recording d) p (rootDsn p) (w1, l) = (r, p1, (w2, l2))"
    by (metis surj_pair)
  then have l2: "l2 = l" using recording_connect_log [of d p "rootDsn p" w1 l w2 l2] by simp
  have n1: "name p1 = name p"
    using c by (auto simp: connect_def split: option.splits prod.splits sum.splits)
  show "\<exists>root. snd (snd (snd (Drop (recording d) p (w, l)))) =
            l @ [(root, closeConns (name p)), (root, dropSql (name p))]"
    using ok f c l2 n1
    by (auto simp: Drop_def Let_def recording_exec_must recording_Close
        split: sum.splits prod.splits option.splits dest!: verifyPgDbName_Inr)
qed

theorem Remove_only_drops_witness:
  "fst (Drop (recording (quiet (Inr ()))) handle0 ((), [])) = Inr () \<and>
   snd (snd (pgInitializer_Remove (recording (quiet (Inr ()))) 7 ''test_template_abc'' ((), []))) =
     [(7, ''DROP DATABASE IF EXISTS test_template_abc'')] \<and>
   snd (snd (pgInitializer_Remove (recording (quiet (Inr ()))) 7 ''my-db'' ((), []))) = [] \<and>
   snd (snd (snd (Drop (recording (quiet (Inr ()))) handle0 ((), [])))) =
     [(0, closeConns ''test_db_1''), (0, ''DROP DATABASE IF EXISTS '' @ [dq] @ ''test_db_1'' @ [dq])]"
proof -
  have v: "pgDbNameRegex_MatchString ''test_template_abc''"
    by (simp add: pgDbNameRegex_MatchString_def pgDbNameClass_def in_range_def)
  have v': "pgDbNameRegex_MatchString ''test_db_1''"
    by (simp add: pgDbNameRegex_MatchString_def pgDbNameClass_def in_range_def)
  have nv: "\<not> pgDbNameRegex_MatchString ''my-db''"
    by (simp add: pgDbNameRegex_MatchString_def pgDbNameClass_def in_range_def)
  have ok: "fst (Drop (recording (quiet (Inr ()))) handle0 ((), [])) = Inr ()"
    using v' by (simp add: Drop_def handle0_def connect_def recording_def quiet_def
        verifyPgDbName_def exec_must_def)
  have dr: "snd (snd (snd (Drop (recording (quiet (Inr ()))) handle0 ((), [])))) =
     [(0, closeConns ''test_db_1''), (0, ''DROP DATABASE IF EXISTS '' @ [dq] @ ''test_db_1'' @ [dq])]"
    using v' by (simp add: Drop_def handle0_def connect_def recording_def quiet_def
        verifyPgDbName_def exec_must_def dropSql_def)
  from Remove_only_drops [where d = "quiet (Inr ())" and c = 7 and n = "''test_template_abc''"
      and w = "()" and l = "[]" and p = handle0]
    Remove_only_drops [where d = "quiet (Inr ())" and c = 7 and n = "''my-db''"
      and w = "()" and l = "[]" and p = handle0]
  show ?thesis using v nv ok dr by (simp add: removeSql_def)
qed

text \<open>
  C7 as stated fails: on a driver where every statement succeeds, \<open>Remove\<close> of a template
  sends the \<open>DROP DATABASE\<close> alone; the query that terminates the sessions of that database
  is not among the statements sent.
\<close>

theorem Remove_does_not_terminate_sessions:
  "snd (snd (pgInitializer_Remove (recording (quiet (Inr ()))) 7 ''test_template_abc'' ((), []))) =
     [(7, ''DROP DATABASE IF EXISTS test_template_abc'')] \<and>
   closeConns ''test_template_abc'' \<notin>
     snd ` set (snd (snd (pgInitializer_Remove (recording (quiet (Inr ()))) 7 ''test_template_abc'' ((), []))))"
  by (simp add: pgInitializer_Remove_def verifyPgDbName_def recording_def quiet_def removeSql_def
      exec_must_def pgDbNameRegex_MatchString_def pgDbNameClass_def in_range_def closeConns_def nl_def)

subsection \<open>NewDsn\<close>

lemma slash_not_word: "\<not> is_word CHR ''/''"
  by (simp add: is_word_def in_range_def)

lemma question_not_word: "\<not> is_word CHR ''?''"
  by (simp add: is_word_def in_range_def)

lemma match_here_extend:
  assumes "match_here (c # cs) = None"
  shows "match_here (c # cs @ CHR ''/'' # xs) = None"
proof (cases "\<forall>x\<in>set cs. is_word x")
  case True
  then have "dropWhile is_word (cs @ CHR ''/'' # xs) = CHR ''/'' # xs"
    by (simp add: dropWhile_append slash_not_word)
  then show ?thesis by simp
next
  case False
  then obtain x where x: "x \<in> set cs" "\<not> is_word x" by blast
  then have t: "takeWhile is_word (cs @ CHR ''/'' # xs) = takeWhile is_word cs"
    and dr: "dropWhile is_word (cs @ CHR ''/'' # xs) = dropWhile is_word cs @ CHR ''/'' # xs"
    by simp_all
  from False have ne: "dropWhile is_word cs \<noteq> []" by simp
  then obtain q rest where qr: "dropWhile is_word cs = q # rest" by (cases "dropWhile is_word cs") auto
  with assms show ?thesis by (simp add: t dr split: if_splits)
qed

lemma ReplaceAllString_skip:
  "\<not> MatchString pre \<Longrightarrow>
   ReplaceAllString d (pre @ CHR ''/'' # xs) repl = pre @ ReplaceAllString d (CHR ''/'' # xs) repl"
proof (induction pre)
  case Nil
  then show ?case by simp
next
  case (Cons c cs)
  from Cons.prems have n: "match_here (c # cs) = None" and "\<not> MatchString cs"
    by (cases "match_here (c # cs)", simp_all del: match_here.simps)+
  from n have "match_here (c # cs @ CHR ''/'' # xs) = None" by (rule match_here_extend)
  then have "ReplaceAllString d ((c # cs) @ CHR ''/'' # xs) repl =
      c # ReplaceAllString d (cs @ CHR ''/'' # xs) repl"
    by (simp del: match_here.simps)
  with Cons.IH [OF \<open>\<not> MatchString cs\<close>] show ?case by simp
qed

lemma ReplaceAllString_no_match:
  "\<not> MatchString s \<Longrightarrow> ReplaceAllString d s repl = s"
proof (induction s)
  case Nil
  then show ?case by simp
next
  case (Cons c cs)
  from Cons.prems have n: "match_here (c # cs) = None" and "\<not> MatchString cs"
    by (cases "match_here (c # cs)", simp_all del: match_here.simps)+
  from n have "ReplaceAllString d (c # cs) repl = c # ReplaceAllString d cs repl"
    by (simp del: match_here.simps)
  with Cons.IH [OF \<open>\<not> MatchString cs\<close>] show ?case by simp
qed

lemma match_here_database:
  assumes "db \<noteq> []" and "list_all is_word db"
  shows "match_here (CHR ''/'' # db @ CHR ''?'' # post) = Some (CHR ''/'' # db @ ''?'', post)"
proof -
  from assms(2) have a: "\<forall>x\<in>set db. is_word x" by (simp add: list_all_iff)
  then have "takeWhile is_word (db @ CHR ''?'' # post) = db"
    and "dropWhile is_word (db @ CHR ''?'' # post) = CHR ''?'' # post"
    by (simp_all add: takeWhile_append dropWhile_append question_not_word)
  with assms(1) show ?thesis by simp
qed

lemma valid_name_literal:
  assumes "pgDbNameRegex_MatchString newName"
  shows "CHR ''$'' \<notin> set (''/'' @ newName @ ''?'')"
proof -
  have "\<not> pgDbNameClass CHR ''$''" by (simp add: pgDbNameClass_def in_range_def)
  with assms show ?thesis
    by (auto simp: pgDbNameRegex_MatchString_def list_all_iff)
qed

text \<open>
  C6. For a base target \<open>pre/db?post\<close>, where \<open>db\<close> is a non-empty run of word characters
  and neither \<open>pre\<close> nor \<open>post\<close> holds a further match of the pattern, and for a new name
  that passes \<open>verifyPgDbName\<close>, \<open>NewDsn\<close> returns \<open>pre/newName?post\<close>: the database name
  is the new one and the rest of the target is unchanged. A base with no match of the
  pattern is reported to the error handler.
\<close>

theorem NewDsn_rewrites_database_name:
  assumes "pgDbNameRegex_MatchString newName"
    and "db \<noteq> []" and "list_all is_word db"
    and "\<not> MatchString pre" and "\<not> MatchString post"
    and "\<not> MatchString other"
  shows "pgInitializer_NewDsn d (pre @ ''/'' @ db @ ''?'' @ post) newName =
           Inr (pre @ ''/'' @ newName @ ''?'' @ post) \<and>
         pgInitializer_NewDsn d other newName =
           Inl (Fatal (Errorf (''invalid DSN provided, cannot find database name in '' @
                  [bq] @ other @ [bq])) [])"
proof -
  let ?repl = "''/'' @ newName @ ''?''"
  have m: "match_here (CHR ''/'' # db @ CHR ''?'' # post) = Some (CHR ''/'' # db @ ''?'', post)"
    using assms(2,3) by (rule match_here_database)
  then have ms: "MatchString (pre @ ''/'' @ db @ ''?'' @ post)"
    by (induction pre) (simp_all del: match_here.simps)
  have r: "replacement d ?repl (CHR ''/'' # db @ ''?'') = ?repl"
    using valid_name_literal [OF assms(1)] by (simp add: replacement_def)
  have "ReplaceAllString d (pre @ CHR ''/'' # db @ CHR ''?'' # post) ?repl =
      pre @ ReplaceAllString d (CHR ''/'' # db @ CHR ''?'' # post) ?repl"
    using assms(4) by (rule ReplaceAllString_skip)
  also have "ReplaceAllString d (CHR ''/'' # db @ CHR ''?'' # post) ?repl =
      replacement d ?repl (CHR ''/'' # db @ ''?'') @ ReplaceAllString d post ?repl"
    using m by (simp del: match_here.simps)
  also have "\<dots> = ?repl @ post"
    by (simp only: r ReplaceAllString_no_match [OF assms(5)])
  finally show ?thesis using ms assms(6) by (simp add: pgInitializer_NewDsn_def)
qed

theorem NewDsn_rewrites_database_name_witness:
  "pgInitializer_NewDsn (quiet (Inr ()))
     ''postgresql://db/test_db?user=testuser&password=testpassword'' ''test_template_abc'' =
     Inr ''postgresql://db/test_template_abc?user=testuser&password=testpassword'' \<and>
   pgInitializer_NewDsn (quiet (Inr ())) ''host=db dbname=test_db'' ''test_template_abc'' =
     Inl (Fatal (Errorf (''invalid DSN provided, cannot find database name in '' @
            [bq] @ ''host=db dbname=test_db'' @ [bq])) [])"
proof -
  have a: "pgDbNameRegex_MatchString ''test_template_abc''"
    by (simp add: pgDbNameRegex_MatchString_def pgDbNameClass_def in_range_def)
  have b: "''test_db'' \<noteq> []" by simp
  have c: "list_all is_word ''test_db''" by (simp add: is_word_def in_range_def)
  have d: "\<not> MatchString ''postgresql://db''" by (simp add: is_word_def in_range_def)
  have e: "\<not> MatchString ''user=testuser&password=testpassword''"
    by (simp add: is_word_def in_range_def)
  have f: "\<not> MatchString ''host=db dbname=test_db''" by (simp add: is_word_def in_range_def)
  from NewDsn_rewrites_database_name [OF a b c d e f, of "quiet (Inr ())"]
  show ?thesis by simp
qed

text \<open>
  C6 as stated fails: a target with a database name and no query string has no match of
  the pattern, and \<open>NewDsn\<close> hands it to the error handler instead of returning a target
  for the new name.
\<close>

theorem NewDsn_without_query_counterexample:
  "pgInitializer_NewDsn (quiet (Inr ())) ''postgresql://user@host:5432/test_db'' ''test_template_abc'' =
     Inl (Fatal (Errorf (''invalid DSN provided, cannot find database name in '' @
            [bq] @ ''postgresql://user@host:5432/test_db'' @ [bq])) [])"
  by (simp add: pgInitializer_NewDsn_def is_word_def in_range_def)

section \<open>Properties of the provisioner\<close>

subsection \<open>The concrete runs\<close>

lemma run2_calls:
  "new_calls (snd run1) (snd run2) =
     reuse ''postgres'' ''123e4567-e89b-12d3-a456-426614174001'' 1 ''abc''
       ''test_db_123e4567e89b12d3a456426614174001''"
  by (simp add: run2_def New_def exec mem_defs reuse_def new_calls_def run1_world)

lemma run2_result: "fst run2 = Inr (mem_Db ''test_db_123e4567e89b12d3a456426614174001'')"
  by (simp add: run2_def New_def exec mem_defs run1_world)

lemma run2_migrations: "migrations (world (snd run2)) = [''test_template_abc'']"
  by (simp add: run2_def New_def exec mem_defs run1_world)

lemma runF_result: "fst runF = Inl (Fatal (Errorf ''failed to migrate test DB'') [AnySlice []])"
  by (simp add: runF_def New_def exec mem_defs)

lemma runF_calls:
  "calls (snd runF) =
     [(CallConnect ''postgres'', Conn 0),
      (CallHash, Str ''abc''),
      (CallLock 0 ''test_template_abc'', Done),
      (CallExists 0 ''test_template_abc'', Bool False),
      (CallCreate 0 ''test_template_abc'', Done),
      (CallNewDsn ''postgres'' ''test_template_abc'', Str ''test_template_abc''),
      (CallMigrate ''test_template_abc'',
         Failed (Fatal (Errorf ''failed to migrate test DB'') [AnySlice []]))]"
  by (simp add: runF_def New_def exec mem_defs)

lemma runF_world:
  "dbs (world (snd runF)) = {''test_template_abc''}"
  "holder (world (snd runF)) ''test_template_abc'' = Some 0"
  by (simp_all add: runF_def New_def exec mem_defs)

lemma runNil_eval:
  "fst runNil = Inl NilPointerDereference"
  "calls (snd runNil) = [(CallConnect ''postgres'', Conn 0), (CallHash, Failed NilPointerDereference)]"
  by (simp_all add: runNil_def New_def exec mem_defs)

subsection \<open>Fingerprinting\<close>

text \<open>
  C10. Every call of \<open>New\<close> whose \<open>Connect\<close> returns invokes \<open>Hash\<close> exactly once, and
  the invocation comes before any existence check. With the nil migrator the invocation is
  a nil dereference: the call makes no further call and returns no database.
\<close>

theorem Hash_once_after_Connect:
  assumes "fst (Connect h dsn' (world s)) = Inr root"
  shows "(case New h m dsn' uuid s of (r, s') \<Rightarrow>
           count_calls is_Hash (new_calls s s') = 1 \<and>
           CallHash \<in> fst ` set (takeWhile (\<lambda>e. \<not> is_Exists (fst e)) (new_calls s s')) \<and>
           (m = None \<longrightarrow>
              r = Inl NilPointerDereference \<and>
              new_calls s s' =
                [(CallConnect dsn', Conn root), (CallHash, Failed NilPointerDereference)]))"
  using assms
  apply -
  apply (rule afterI)
  apply (simp only: New_def)
  apply (intro allI impI conjI | split prod.split | split sum.split | split option.split
      | split if_split | simp add: after_rules new_calls_def count_calls_def)+
  done

theorem Hash_once_after_Connect_witness:
  "fst (Connect memInitializer ''postgres'' (world (t0 fresh :: (conn, server) tb))) = Inr 0 \<and>
   count_calls is_Hash (new_calls (t0 fresh) (snd runNil)) = 1 \<and>
   fst runNil = Inl NilPointerDereference"
proof -
  have c: "fst (Connect memInitializer ''postgres'' (world (t0 fresh :: (conn, server) tb))) = Inr 0"
    by (simp add: mem_defs)
  from Hash_once_after_Connect [OF c, where m = None and uuid = "''123e4567-e89b-12d3-a456-426614174000''"]
  show ?thesis using c
    by (simp add: runNil_def [symmetric] case_prod_unfold count_calls_def)
qed

text \<open>
  C10 as stated fails: \<open>Connect\<close> is the first statement of \<open>New\<close>, and when it reaches
  the error handler the test halts before \<open>Hash\<close>. On a driver that cannot reach its
  server \<open>NewPg\<close> makes the one call \<open>Connect\<close> and never invokes \<open>Hash\<close>.
\<close>

theorem Hash_skipped_when_Connect_fails:
  "(case NewPg down ''postgresql://h/postgres?sslmode=disable'' (Some (neverMigrator ''abc''))
           ''123e4567-e89b-12d3-a456-426614174000'' (t0 ()) of
      (r, s') \<Rightarrow>
        r = Inl (Fatal (Errorf ''connection refused'') [AnySlice []]) \<and>
        calls s' = [(CallConnect ''postgresql://h/postgres?sslmode=disable'',
                     Failed (Fatal (Errorf ''connection refused'') [AnySlice []]))] \<and>
        count_calls is_Hash (calls s') = 0)"
  apply (simp only: NewPg_def)
  apply (rule afterI)
  apply (simp add: New_def after_rules pgInitializer_def pgInitializer_Connect_def down_def quiet_def
      t0_def count_calls_def)
  done

subsection \<open>The named lock\<close>

text \<open>
  C4. In every call of \<open>New\<close> the lock is acquired at most once and released at most
  once, both on the template name; a release comes only after a \<open>CreateFromTemplate\<close>
  that returned, so never between the existence check and the clone. A call that returns a
  handle has acquired the lock exactly once and released it exactly once.
\<close>

theorem lock_released_only_after_clone:
  "(case New h m dsn' uuid s of (r, s') \<Rightarrow>
      count_calls is_Lock (new_calls s s') \<le> 1 \<and>
      count_calls is_Unlock (new_calls s s') \<le> 1 \<and>
      (\<forall>e\<in>set (new_calls s s'). is_Unlock (fst e) \<longrightarrow>
         (\<exists>c\<in>set (takeWhile (\<lambda>e. \<not> is_Unlock (fst e)) (new_calls s s')).
            is_CreateFromTemplate (fst c) \<and> snd c = Done)) \<and>
      (\<forall>c n. CallLock c n \<in> fst ` set (new_calls s s') \<or> CallUnlock c n \<in> fst ` set (new_calls s s') \<longrightarrow>
         (\<exists>hsh. (CallHash, Str hsh) \<in> set (new_calls s s') \<and> n = ''test_template_'' @ hsh)) \<and>
      (\<forall>db. r = Inr db \<longrightarrow>
         count_calls is_Lock (new_calls s s') = 1 \<and> count_calls is_Unlock (new_calls s s') = 1))"
  apply (rule afterI)
  apply (simp only: New_def)
  apply (intro allI impI conjI | split prod.split | split sum.split | split option.split
      | split if_split | clarsimp simp add: after_rules new_calls_def count_calls_def)+
  done

theorem lock_released_only_after_clone_witness:
  "count_calls is_Lock (new_calls (t0 fresh) (snd run1)) = 1 \<and>
   count_calls is_Unlock (new_calls (t0 fresh) (snd run1)) = 1 \<and>
   takeWhile (\<lambda>e. \<not> is_Unlock (fst e)) (new_calls (t0 fresh) (snd run1)) =
     take 8 (calls (snd run1))"
proof -
  have t: "takeWhile (\<lambda>e. \<not> is_Unlock (fst e)) (new_calls (t0 fresh) (snd run1)) =
     take 8 (calls (snd run1))"
    by (simp add: new_calls_def run1_calls first_use_def t0_def)
  from lock_released_only_after_clone [where h = memInitializer
      and m = "Some (memMigrator ''abc'' True)" and dsn' = "''postgres''"
      and uuid = "''123e4567-e89b-12d3-a456-426614174000''" and s = "t0 fresh"]
  show ?thesis using t run1_result
    by (simp add: run1_def [symmetric] case_prod_unfold)
qed

text \<open>
  C4 as stated fails: a call that is halted between \<open>Lock\<close> and \<open>Unlock\<close> has acquired
  the lock and never releases it. When \<open>Migrate\<close> fails, \<open>New\<close> has called \<open>Lock\<close> once
  and \<open>Unlock\<close> not at all, and the connection of the call still holds the lock.
\<close>

theorem lock_kept_when_Migrate_fails:
  "fst runF = Inl (Fatal (Errorf ''failed to migrate test DB'') [AnySlice []]) \<and>
   count_calls is_Lock (calls (snd runF)) = 1 \<and>
   count_calls is_Unlock (calls (snd runF)) = 0 \<and>
   holder (world (snd runF)) ''test_template_abc'' = Some 0"
  by (simp add: runF_result runF_calls runF_world count_calls_def)

subsection \<open>The deferred cleanup of the template\<close>



lemmas pg_defs = NewPg_def pgInitializer_def pgInitializer_Connect_def pgInitializer_Lock_def
  pgInitializer_Unlock_def pgInitializer_Exists_def pgInitializer_Create_def
  pgInitializer_CreateFromTemplate_def pgInitializer_Remove_def pgInitializer_NewDsn_def
  exec_must_def verifyPgDbName_def pgDbNameRegex_MatchString_def pgDbNameClass_def in_range_def
  is_word_def replacement_def

lemma runInUse_result: "fst runInUse = Inl (Fatal (Errorf ''failed to migrate test DB'') [AnySlice []])"
  by (simp add: runInUse_def New_def exec pg_defs inUse_def failingMigrator_def t0_def
      lockSql_def existsSql_def createSql_def dq_def)








subsection \<open>Reuse of the template\<close>

lemma New_returned:
  "(case New h m dsn' uuid s of (r, s') \<Rightarrow>
      \<forall>db. r = Inr db \<longrightarrow>
        (exists_answers (new_calls s s') = [Bool False] \<and>
           (\<exists>root hsh templateDsn testDbDsn.
              new_calls s s' = first_use dsn' uuid root hsh templateDsn testDbDsn)) \<or>
        (exists_answers (new_calls s s') = [Bool True] \<and>
           (\<exists>root hsh testDbDsn. new_calls s s' = reuse dsn' uuid root hsh testDbDsn)))"
  apply (rule afterI)
  apply (simp only: New_def)
  apply (intro allI impI conjI | split prod.split | split sum.split | split option.split
      | split if_split | clarsimp simp add: after_rules new_calls_def exists_answers_def first_use_def reuse_def)+
  done

text \<open>
  C2. Two calls of \<open>New\<close>, one after the other, that both return a handle, the first
  after \<open>Exists\<close> answered false and the second after it answered true: the first call
  makes exactly the calls \<open>first_use\<close>, with one \<open>Create\<close> of the template followed by
  one \<open>Migrate\<close> on its target, the second makes exactly the calls \<open>reuse\<close>, with no
  \<open>Create\<close> and no \<open>Migrate\<close>, and each makes one \<open>CreateFromTemplate\<close>.
\<close>

theorem template_reuse:
  assumes "New h m dsn' uuid1 s = (Inr db1, s1)"
    and "New h m dsn' uuid2 s1 = (Inr db2, s2)"
    and "exists_answers (new_calls s s1) = [Bool False]"
    and "exists_answers (new_calls s1 s2) = [Bool True]"
  shows "(\<exists>root hsh templateDsn testDbDsn.
            new_calls s s1 = first_use dsn' uuid1 root hsh templateDsn testDbDsn) \<and>
         (\<exists>root hsh testDbDsn. new_calls s1 s2 = reuse dsn' uuid2 root hsh testDbDsn) \<and>
         count_calls is_Create (new_calls s s1) = 1 \<and>
         count_calls is_Migrate (new_calls s s1) = 1 \<and>
         count_calls is_CreateFromTemplate (new_calls s s1) = 1 \<and>
         count_calls is_Create (new_calls s1 s2) = 0 \<and>
         count_calls is_Migrate (new_calls s1 s2) = 0 \<and>
         count_calls is_CreateFromTemplate (new_calls s1 s2) = 1"
proof -
  from New_returned [where h = h and m = m and dsn' = dsn' and uuid = uuid1 and s = s] assms(1,3)
  obtain root hsh templateDsn testDbDsn where
    a: "new_calls s s1 = first_use dsn' uuid1 root hsh templateDsn testDbDsn"
    by auto
  from New_returned [where h = h and m = m and dsn' = dsn' and uuid = uuid2 and s = s1] assms(2,4)
  obtain root' hsh' testDbDsn' where
    b: "new_calls s1 s2 = reuse dsn' uuid2 root' hsh' testDbDsn'"
    by auto
  have "count_calls is_Create (new_calls s s1) = 1"
    "count_calls is_Migrate (new_calls s s1) = 1"
    "count_calls is_CreateFromTemplate (new_calls s s1) = 1"
    by (simp_all add: a first_use_def count_calls_def)
  moreover have "count_calls is_Create (new_calls s1 s2) = 0"
    "count_calls is_Migrate (new_calls s1 s2) = 0"
    "count_calls is_CreateFromTemplate (new_calls s1 s2) = 1"
    by (simp_all add: b reuse_def count_calls_def)
  ultimately show ?thesis using a b by blast
qed

theorem template_reuse_witness:
  "count_calls is_Create (new_calls (t0 fresh) (snd run1)) = 1 \<and>
   count_calls is_Migrate (new_calls (t0 fresh) (snd run1)) = 1 \<and>
   count_calls is_CreateFromTemplate (new_calls (t0 fresh) (snd run1)) = 1 \<and>
   count_calls is_Create (new_calls (snd run1) (snd run2)) = 0 \<and>
   count_calls is_Migrate (new_calls (snd run1) (snd run2)) = 0 \<and>
   count_calls is_CreateFromTemplate (new_calls (snd run1) (snd run2)) = 1 \<and>
   migrations (world (snd run2)) = [''test_template_abc'']"
proof -
  have a: "New memInitializer (Some (memMigrator ''abc'' True)) ''postgres''
      ''123e4567-e89b-12d3-a456-426614174000'' (t0 fresh) =
      (Inr (mem_Db ''test_db_123e4567e89b12d3a456426614174000''), snd run1)"
    using run1_result by (simp add: run1_def [symmetric] prod_eq_iff)
  have b: "New memInitializer (Some (memMigrator ''abc'' True)) ''postgres''
      ''123e4567-e89b-12d3-a456-426614174001'' (snd run1) =
      (Inr (mem_Db ''test_db_123e4567e89b12d3a456426614174001''), snd run2)"
    using run2_result by (simp add: run2_def [symmetric] prod_eq_iff)
  have c: "exists_answers (new_calls (t0 fresh) (snd run1)) = [Bool False]"
    by (simp add: new_calls_def run1_calls first_use_def exists_answers_def t0_def)
  have d: "exists_answers (new_calls (snd run1) (snd run2)) = [Bool True]"
    by (simp add: run2_calls reuse_def exists_answers_def)
  from template_reuse [OF a b c d] show ?thesis by (simp add: run2_migrations)
qed

section \<open>Properties of concurrent calls\<close>

subsection \<open>A process alone follows New\<close>

text \<open>
  A process that runs alone changes the server as \<open>New\<close> does on the backend in memory:
  on the first use of a template, on its reuse, at the end of the test, and when \<open>Migrate\<close>
  fails. When the lock is held, the process has no third step and \<open>New\<close> does not return.
\<close>

lemmas machine_defs = step_def advance_def next_step_def attempt_def on_root_def test_end_def
  init_def Let_def

lemma solo_first_use:
  assumes "holder w (''test_template_'' @ h) = None"
    and "''test_template_'' @ h \<notin> dbs w"
    and "''test_db_'' @ filter (\<lambda>c. c \<noteq> CHR ''-'') uuid \<notin> dbs w"
  shows "map_option srv (run_schedule (\<lambda>p. h) (\<lambda>p. uuid) (replicate 10 (p, True)) (init w)) =
         Some (world (snd (New memInitializer (Some (memMigrator h True)) ''root'' uuid (t0 w))))"
  using assms
  by (simp add: eval_nat_numeral machine_defs New_def exec mem_defs)

lemma solo_reuse:
  assumes "holder w (''test_template_'' @ h) = None"
    and "''test_template_'' @ h \<in> dbs w"
    and "''test_db_'' @ filter (\<lambda>c. c \<noteq> CHR ''-'') uuid \<notin> dbs w"
  shows "map_option srv (run_schedule (\<lambda>p. h) (\<lambda>p. uuid) (replicate 7 (p, True)) (init w)) =
         Some (world (snd (New memInitializer (Some (memMigrator h True)) ''root'' uuid (t0 w))))"
  using assms
  by (simp add: eval_nat_numeral machine_defs New_def exec mem_defs)

lemma solo_test_end:
  assumes "holder w (''test_template_'' @ h) = None"
    and "''test_template_'' @ h \<notin> dbs w"
    and "''test_db_'' @ filter (\<lambda>c. c \<noteq> CHR ''-'') uuid \<notin> dbs w"
  shows "map_option srv (run_schedule (\<lambda>p. h) (\<lambda>p. uuid) (replicate 11 (p, True)) (init w)) =
         Some (world (runCleanup
           (snd (New memInitializer (Some (memMigrator h True)) ''root'' uuid (t0 w)))))"
  using assms
  by (simp add: eval_nat_numeral machine_defs New_def exec mem_defs runCleanup_def call_def)

lemma solo_failed_migration:
  assumes "holder w (''test_template_'' @ h) = None"
    and "''test_template_'' @ h \<notin> dbs w"
  shows "map_option srv (run_schedule (\<lambda>p. h) (\<lambda>p. uuid)
           (replicate 6 (p, True) @ [(p, False), (p, True)]) (init w)) =
         Some (world (runCleanup
           (snd (New memInitializer (Some (memMigrator h False)) ''root'' uuid (t0 w)))))"
  using assms
  by (simp add: eval_nat_numeral machine_defs New_def exec mem_defs runCleanup_def call_def)

lemma solo_waits:
  assumes "holder w (''test_template_'' @ h) = Some c"
  shows "run_schedule (\<lambda>p. h) (\<lambda>p. uuid) (replicate 3 (p, True)) (init w) = None"
    and "fst (New memInitializer (Some (memMigrator h True)) ''root'' uuid (t0 w)) = Inl BlocksForever"
  using assms
  by (simp_all add: eval_nat_numeral machine_defs New_def exec mem_defs)

subsection \<open>The steps of a process\<close>
















lemma holds_frame:
  assumes "rootConn (procs sys' q) = rootConn (procs sys q)"
    and "holder (srv sys') T = holder (srv sys) T"
  shows "holds sys' T q = holds sys T q"
  using assms by (simp add: holds_def)














subsection \<open>Migrate runs at most once\<close>



end
